theory Spec2Isabelle
  imports Main
begin

section \<open>The Telegram back-end of errbot\<close>

text \<open>
  A shallow embedding of \<^verbatim>\<open>src/errbot/backends/telegram_messenger.py\<close>.
  Python integers are \<^typ>\<open>int\<close>; a text whose characters the code inspects is a list of
  Unicode code points, any other text a \<^typ>\<open>string\<close>; an attribute that may hold
  \<^verbatim>\<open>None\<close> is an \<^typ>\<open>'a option\<close>; and a call that may raise returns the exception as a
  value.
\<close>

subsection \<open>Exceptions\<close>

text \<open>
  The exceptions the module raises or handles. \<^verbatim>\<open>KeyboardInterrupt\<close> and
  \<^verbatim>\<open>SystemExit\<close> derive from \<^verbatim>\<open>BaseException\<close> only, so the handler
  \<^verbatim>\<open>except Exception\<close> lets them through; every other one is an \<^verbatim>\<open>Exception\<close>.
\<close>

datatype exn =
    KeyboardInterrupt
  | SystemExit
  | TelegramError string
  | AttributeError
  | TypeError
  | ValueError string
  | RoomsNotSupportedError string
  | OtherException string

fun is_Exception :: "exn \<Rightarrow> bool" where
  "is_Exception KeyboardInterrupt = False"
| "is_Exception SystemExit = False"
| "is_Exception _ = True"

definition rooms_not_supported_text :: string where
  "rooms_not_supported_text =
     ''Room operations are not supported on Telegram. '' @
     ''While Telegram itself has groupchat functionality, it does not '' @
     ''expose any APIs to bots to get group membership or otherwise '' @
     ''interact with groupchats.''"

text \<open>\<^verbatim>\<open>RoomsNotSupportedError.__init__(self, message=None)\<close>.\<close>

definition RoomsNotSupportedError_init :: "string option \<Rightarrow> exn" where
  "RoomsNotSupportedError_init message =
     (case message of
        None \<Rightarrow> RoomsNotSupportedError rooms_not_supported_text
      | Some m \<Rightarrow> RoomsNotSupportedError m)"

subsection \<open>Identities\<close>

record TelegramPerson =
  person_id :: int
  first_name :: "string option"
  last_name :: "string option"
  username :: "string option"

record TelegramRoom =
  room_id :: int
  title :: "string option"

record TelegramMUCOccupant = TelegramPerson +
  room :: TelegramRoom

datatype telegram_identity =
    Person TelegramPerson
  | Room TelegramRoom
  | MUCOccupant TelegramMUCOccupant

text \<open>The \<^verbatim>\<open>id\<close> property: each class returns its \<^verbatim>\<open>_id\<close> field.\<close>

fun ident_id :: "telegram_identity \<Rightarrow> int" where
  "ident_id (Person p) = person_id p"
| "ident_id (Room r) = room_id r"
| "ident_id (MUCOccupant m) = person_id m"

text \<open>\<^verbatim>\<open>TelegramIdentifier.__eq__\<close>: \<^verbatim>\<open>self._id == other.id\<close>, inherited by all three classes.\<close>

definition TelegramIdentifier_eq :: "telegram_identity \<Rightarrow> telegram_identity \<Rightarrow> bool" where
  "TelegramIdentifier_eq self other = (ident_id self = ident_id other)"

text \<open>
  \<^verbatim>\<open>TelegramPerson.fullname\<close>. With \<^verbatim>\<open>first_name\<close> unset and a last name present,
  \<^verbatim>\<open>fullname += " " + self.last_name\<close> adds a string to \<^verbatim>\<open>None\<close>: a \<^verbatim>\<open>TypeError\<close>.
\<close>

definition fullname :: "TelegramPerson \<Rightarrow> exn + string option" where
  "fullname self =
     (case last_name self of
        None \<Rightarrow> Inr (first_name self)
      | Some l \<Rightarrow>
          (case first_name self of
             None \<Rightarrow> Inl TypeError
           | Some f \<Rightarrow> Inr (Some (f @ '' '' @ l))))"

subsection \<open>Room operations\<close>

text \<open>
  Every method and property of \<^verbatim>\<open>TelegramRoom\<close> beyond \<^verbatim>\<open>id\<close> and \<^verbatim>\<open>title\<close> raises.
  Each takes the room and returns the outcome with the room as the call leaves it.
\<close>

definition TelegramRoom_join ::
  "TelegramRoom \<Rightarrow> string option \<Rightarrow> string option \<Rightarrow> (exn + unit) \<times> TelegramRoom" where
  "TelegramRoom_join self usr password = (Inl (RoomsNotSupportedError_init None), self)"

definition TelegramRoom_create :: "TelegramRoom \<Rightarrow> (exn + unit) \<times> TelegramRoom" where
  "TelegramRoom_create self = (Inl (RoomsNotSupportedError_init None), self)"

definition TelegramRoom_leave ::
  "TelegramRoom \<Rightarrow> string option \<Rightarrow> (exn + unit) \<times> TelegramRoom" where
  "TelegramRoom_leave self reason = (Inl (RoomsNotSupportedError_init None), self)"

definition TelegramRoom_destroy :: "TelegramRoom \<Rightarrow> (exn + unit) \<times> TelegramRoom" where
  "TelegramRoom_destroy self = (Inl (RoomsNotSupportedError_init None), self)"

definition TelegramRoom_joined :: "TelegramRoom \<Rightarrow> (exn + bool) \<times> TelegramRoom" where
  "TelegramRoom_joined self = (Inl (RoomsNotSupportedError_init None), self)"

definition TelegramRoom_exists :: "TelegramRoom \<Rightarrow> (exn + bool) \<times> TelegramRoom" where
  "TelegramRoom_exists self = (Inl (RoomsNotSupportedError_init None), self)"

definition TelegramRoom_topic :: "TelegramRoom \<Rightarrow> (exn + string) \<times> TelegramRoom" where
  "TelegramRoom_topic self = (Inl (RoomsNotSupportedError_init None), self)"

definition TelegramRoom_occupants ::
  "TelegramRoom \<Rightarrow> (exn + TelegramMUCOccupant list) \<times> TelegramRoom" where
  "TelegramRoom_occupants self = (Inl (RoomsNotSupportedError_init None), self)"

definition TelegramRoom_invite ::
  "TelegramRoom \<Rightarrow> string list \<Rightarrow> (exn + unit) \<times> TelegramRoom" where
  "TelegramRoom_invite self args = (Inl (RoomsNotSupportedError_init None), self)"


subsection \<open>Parsing a textual identifier\<close>

text \<open>
  The text that \<^verbatim>\<open>build_identifier\<close> inspects is a Python \<^verbatim>\<open>str\<close>: here a list of
  Unicode code points. \<open>ascii\<close> writes such a text from a literal.
\<close>

definition ascii :: "string \<Rightarrow> nat list" where
  "ascii s = map of_char s"

abbreviation underscore :: nat where "underscore \<equiv> 95"
abbreviation plus_sign :: nat where "plus_sign \<equiv> 43"
abbreviation minus_sign :: nat where "minus_sign \<equiv> 45"

text \<open>
  The two tables of the interpreter that the built-ins read, as CPython 3.11 has them
  (Unicode 14.0): the code points for which \<^verbatim>\<open>str.isspace()\<close> holds, and the code
  points that carry a decimal digit value. The latter come in 66 runs of ten, each run
  the digits 0 to 9 in order; the table lists the zero of every run.
\<close>

definition whitespace_codes :: "nat list" where
  "whitespace_codes =
     [9, 10, 11, 12, 13, 28, 29, 30, 31, 32, 133, 160, 5760, 8192, 8193, 8194, 8195,
      8196, 8197, 8198, 8199, 8200, 8201, 8202, 8232, 8233, 8239, 8287, 12288]"

definition decimal_zeros :: "nat list" where
  "decimal_zeros =
     [48, 1632, 1776, 1984, 2406, 2534, 2662, 2790, 2918, 3046, 3174, 3302, 3430, 3558,
      3664, 3792, 3872, 4160, 4240, 6112, 6160, 6470, 6608, 6784, 6800, 6992, 7088,
      7232, 7248, 42528, 43216, 43264, 43472, 43504, 43600, 44016, 65296, 66720, 68912,
      69734, 69872, 69942, 70096, 70384, 70736, 70864, 71248, 71360, 71472, 71904,
      72016, 72784, 73040, 73120, 92768, 92864, 93008, 120782, 120792, 120802, 120812,
      120822, 123200, 123632, 125264, 130032]"

definition is_space :: "nat \<Rightarrow> bool" where
  "is_space c = (c \<in> set whitespace_codes)"

definition unicode_decimal :: "nat \<Rightarrow> nat option" where
  "unicode_decimal c =
     (case find (\<lambda>z. z \<le> c \<and> c < z + 10) decimal_zeros of
        None \<Rightarrow> None
      | Some z \<Rightarrow> Some (c - z))"

definition is_digit :: "nat \<Rightarrow> bool" where
  "is_digit c = (unicode_decimal c \<noteq> None)"

definition digit_val :: "nat \<Rightarrow> int" where
  "digit_val c = (case unicode_decimal c of None \<Rightarrow> 0 | Some d \<Rightarrow> int d)"

text \<open>\<^verbatim>\<open>str.strip()\<close> removes, at both ends, the characters for which
  \<^verbatim>\<open>str.isspace()\<close> holds.\<close>

definition strip :: "nat list \<Rightarrow> nat list" where
  "strip s = rev (dropWhile is_space (rev (dropWhile is_space s)))"

text \<open>
  The built-in \<^verbatim>\<open>int(s)\<close> on a \<^verbatim>\<open>str\<close>, base 10. It skips white space at both ends
  (the characters of \<^verbatim>\<open>str.isspace()\<close> but for the four separators 28 to 31), reads
  one optional sign, and then decimal digits of any script, where a single underscore
  may stand between two digits. It counts the digits it reads: when they are more than
  640 and more than the interpreter's limit \<^verbatim>\<open>sys.get_int_max_str_digits()\<close> (4300
  unless configured; 0 switches the limit off), \<^verbatim>\<open>int\<close> raises. Every failure is a
  \<^verbatim>\<open>ValueError\<close>, here the result \<open>None\<close>: its only caller \<^verbatim>\<open>_is_numeric\<close> does not
  read the message.
\<close>

definition is_int_space :: "nat \<Rightarrow> bool" where
  "is_int_space c = (is_space c \<and> \<not> (28 \<le> c \<and> c \<le> 31))"

text \<open>
  The digit loop: \<open>prev\<close> tells whether the character just read was a digit, which is
  what an underscore and the end of the text both require; \<open>acc\<close> is the value and \<open>n\<close>
  the number of digits read so far.
\<close>

fun scan_digits :: "bool \<Rightarrow> int \<Rightarrow> nat \<Rightarrow> nat list \<Rightarrow> (int \<times> nat) option" where
  "scan_digits prev acc n [] = (if prev then Some (acc, n) else None)"
| "scan_digits prev acc n (c # cs) =
     (if is_digit c then scan_digits True (acc * 10 + digit_val c) (Suc n) cs
      else if c = underscore \<and> prev then scan_digits False acc n cs
      else None)"

definition py_int :: "nat \<Rightarrow> nat list \<Rightarrow> int option" where
  "py_int max_str_digits s =
     (let t = rev (dropWhile is_int_space (rev (dropWhile is_int_space s)));
          negative = (t \<noteq> [] \<and> hd t = minus_sign);
          r = (case t of
                 [] \<Rightarrow> None
               | c # cs \<Rightarrow>
                   if c = minus_sign \<or> c = plus_sign then scan_digits False 0 0 cs
                   else scan_digits False 0 0 t)
      in case r of
           None \<Rightarrow> None
         | Some (v, digits) \<Rightarrow>
             if 640 < digits \<and> 0 < max_str_digits \<and> max_str_digits < digits then None
             else Some (if negative then - v else v))"

text \<open>\<^verbatim>\<open>TelegramBackend._is_numeric\<close>: does \<^verbatim>\<open>int(input_)\<close> return?\<close>

definition is_numeric :: "nat \<Rightarrow> nat list \<Rightarrow> bool" where
  "is_numeric max_str_digits input = (py_int max_str_digits input \<noteq> None)"

text \<open>
  \<^verbatim>\<open>TelegramBackend.build_identifier\<close> (the debug line it logs first is left out). The
  first argument is the interpreter's limit on the digits of an integer text.
\<close>

definition build_identifier :: "nat \<Rightarrow> nat list \<Rightarrow> exn + telegram_identity" where
  "build_identifier max_str_digits txtrep =
     (let id' = strip txtrep
      in if \<not> is_numeric max_str_digits id'
         then Inl (ValueError ''Telegram identifiers must be numeric'')
         else (case py_int max_str_digits id' of
                 None \<Rightarrow> Inl (ValueError ''invalid literal for int() with base 10'')
               | Some v \<Rightarrow>
                   if v > 0
                   then Inr (Person \<lparr>person_id = v, first_name = None, last_name = None,
                                     username = None\<rparr>)
                   else Inr (Room \<lparr>room_id = v, title = None\<rparr>)))"

text \<open>
  The readings of a numeric identifier that the theorems compare the parser with.
  \<open>strictly_numeric\<close>: an optional sign and then decimal digits, at least one, and
  nothing else. \<open>underscored_numeric\<close>: the same, where single underscores may stand
  between digits. \<open>numeric_value\<close> is the number either of them denotes,
  \<open>digit_count\<close> the number of its digits, and \<open>within_digit_limit\<close> says that the
  interpreter's limit lets a text of that many digits through.
\<close>

definition unsigned_part :: "nat list \<Rightarrow> nat list" where
  "unsigned_part t =
     (case t of
        [] \<Rightarrow> []
      | c # cs \<Rightarrow> if c = minus_sign \<or> c = plus_sign then cs else t)"

definition strictly_numeric :: "nat list \<Rightarrow> bool" where
  "strictly_numeric t = (unsigned_part t \<noteq> [] \<and> list_all is_digit (unsigned_part t))"

fun adjacent_underscores :: "nat list \<Rightarrow> bool" where
  "adjacent_underscores (a # b # cs) =
     ((a = underscore \<and> b = underscore) \<or> adjacent_underscores (b # cs))"
| "adjacent_underscores _ = False"

definition underscored_numeric :: "nat list \<Rightarrow> bool" where
  "underscored_numeric t =
     (let b = unsigned_part t
      in b \<noteq> [] \<and> list_all (\<lambda>c. is_digit c \<or> c = underscore) b \<and>
         is_digit (hd b) \<and> is_digit (last b) \<and> \<not> adjacent_underscores b)"

definition decimal_value :: "nat list \<Rightarrow> int" where
  "decimal_value ds = foldl (\<lambda>a c. a * 10 + digit_val c) 0 ds"

definition numeric_value :: "nat list \<Rightarrow> int" where
  "numeric_value t =
     (let v = decimal_value (filter (\<lambda>c. c \<noteq> underscore) (unsigned_part t))
      in if t \<noteq> [] \<and> hd t = minus_sign then - v else v)"

definition digit_count :: "nat list \<Rightarrow> nat" where
  "digit_count t = length (filter is_digit (unsigned_part t))"

definition within_digit_limit :: "nat \<Rightarrow> nat list \<Rightarrow> bool" where
  "within_digit_limit max_str_digits t =
     (\<not> (640 < digit_count t \<and> 0 < max_str_digits \<and> max_str_digits < digit_count t))"

subsection \<open>Provider records and the host's message\<close>

text \<open>
  What the client library hands over. A message's chat is a user (a direct chat) or a
  group chat; \<^verbatim>\<open>text\<close> and \<^verbatim>\<open>from_user\<close> may be \<^verbatim>\<open>None\<close>. The attribute
  \<^verbatim>\<open>message\<close> of an update is absent, which is what \<^verbatim>\<open>hasattr\<close> tests, or it is
  there and holds a message or \<^verbatim>\<open>None\<close>.
\<close>

datatype 'a py_attr = Absent | Holds 'a

record telegram_user =
  user_id :: int
  user_first_name :: "string option"
  user_last_name :: "string option"
  user_username :: "string option"

record telegram_groupchat =
  groupchat_id :: int
  groupchat_title :: "string option"

datatype telegram_chat = UserChat telegram_user | GroupChat telegram_groupchat

record telegram_message =
  msg_text :: "string option"
  chat :: telegram_chat
  from_user :: "telegram_user option"

record telegram_update =
  update_id :: int
  message :: "telegram_message option py_attr"

text \<open>The host's message object: \<^verbatim>\<open>build_message\<close> makes one, the back-end sets
  \<^verbatim>\<open>frm\<close> and \<^verbatim>\<open>to\<close>.\<close>

record Message =
  body :: string
  frm :: "telegram_identity option"
  to :: "telegram_identity option"

subsection \<open>The back-end's state, its environment and what it does\<close>

datatype log_level = DEBUG | INFO | WARNING | ERROR | EXCEPTION

datatype log_arg = ArgInt int | ArgStr string | ArgUpdate telegram_update

text \<open>
  Everything the back-end does to the outside, in order: a log record (level, format
  string, arguments), a write to the host's key-value store, a call of a host callback,
  a call of the provider's \<^verbatim>\<open>sendMessage\<close>.
\<close>

datatype event =
    Log log_level string "log_arg list"
  | StoreSet string int
  | ResetReconnectionCount
  | ConnectCallback
  | DisconnectCallback
  | CallbackMessage Message
  | SuperSendMessage Message
  | SendMessage int string

record backend =
  store :: "string \<Rightarrow> int option"
  bot_identifier :: "TelegramPerson option"
  trace :: "event list"

text \<open>
  The collaborators outside the module: the provider (\<^verbatim>\<open>telegram.Bot(token)\<close> with
  \<^verbatim>\<open>getMe\<close>, \<^verbatim>\<open>sendMessage\<close>) and the host runtime (\<^verbatim>\<open>build_message\<close>,
  \<^verbatim>\<open>callback_message\<close>, the markdown converter). A call that may raise gives the
  exception. The answers of \<^verbatim>\<open>getUpdates\<close> are a list, one per call, each a function
  of the offset the call passes.
\<close>

record host =
  getMe :: "exn + telegram_user"
  build_message :: "string \<Rightarrow> Message"
  callback_message :: "Message \<Rightarrow> exn option"
  md_convert :: "string \<Rightarrow> string"
  sendMessage :: "int \<Rightarrow> string \<Rightarrow> exn option"

type_synonym getUpdates = "int \<Rightarrow> exn + telegram_update list"

definition offset_key :: string where
  "offset_key = ''_telegram_updates_offset''"

definition emit :: "event list \<Rightarrow> backend \<Rightarrow> backend" where
  "emit evs st = st\<lparr>trace := trace st @ evs\<rparr>"

definition person_of_user :: "telegram_user \<Rightarrow> TelegramPerson" where
  "person_of_user u =
     \<lparr>person_id = user_id u, first_name = user_first_name u,
      last_name = user_last_name u, username = user_username u\<rparr>"


subsection \<open>Normalising and dispatching a message\<close>

text \<open>
  \<^verbatim>\<open>TelegramBackend._handle_message\<close>. Called with \<^verbatim>\<open>None\<close>, its first line
  \<^verbatim>\<open>message.text\<close> raises \<^verbatim>\<open>AttributeError\<close>. A message without text is dropped with a
  warning. Otherwise the host builds the message object, sender and recipient are set
  from the chat, and the host's \<^verbatim>\<open>callback_message\<close> receives it. Reading a field
  of a \<^verbatim>\<open>from_user\<close> that is \<^verbatim>\<open>None\<close>, or a \<^verbatim>\<open>bot_identifier\<close> that was never
  set, raises \<^verbatim>\<open>AttributeError\<close>. The result is the state and the exception that left
  the call, if one did.
\<close>

definition handle_message ::
  "host \<Rightarrow> backend \<Rightarrow> telegram_message option \<Rightarrow> backend \<times> exn option" where
  "handle_message env st msg =
     (case msg of
        None \<Rightarrow> (st, Some AttributeError)
      | Some m \<Rightarrow>
     (case msg_text m of
        None \<Rightarrow>
          (emit [Log WARNING ''Unhandled message type (not a text message) ignored'' []] st,
           None)
      | Some txt \<Rightarrow>
          (let message_instance = build_message env txt
           in case chat m of
                UserChat c \<Rightarrow>
                  (case from_user m of
                     None \<Rightarrow> (st, Some AttributeError)
                   | Some u \<Rightarrow>
                       (case bot_identifier st of
                          None \<Rightarrow> (st, Some AttributeError)
                        | Some me \<Rightarrow>
                            (let mi = message_instance
                                   \<lparr>frm := Some (Person (person_of_user u)),
                                    to := Some (Person me)\<rparr>
                             in (emit [CallbackMessage mi] st, callback_message env mi))))
              | GroupChat g \<Rightarrow>
                  (let rm = \<lparr>room_id = groupchat_id g, title = groupchat_title g\<rparr>
                   in case from_user m of
                        None \<Rightarrow> (st, Some AttributeError)
                      | Some u \<Rightarrow>
                          (let mi = message_instance
                                 \<lparr>frm := Some (MUCOccupant
                                     \<lparr>person_id = user_id u,
                                      first_name = user_first_name u,
                                      last_name = user_last_name u,
                                      username = user_username u, room = rm\<rparr>),
                                  to := Some (Room rm)\<rparr>
                           in (emit [CallbackMessage mi] st, callback_message env mi))))))"

subsection \<open>The polling loop\<close>

text \<open>
  The body of the \<^verbatim>\<open>for\<close> loop of \<^verbatim>\<open>serve_once\<close>, for one update: the new offset
  is stored under the fixed key, then the update is handled, unless it has no
  \<^verbatim>\<open>message\<close> attribute. An \<^verbatim>\<open>Exception\<close> of the
  handler is logged and dropped; any other exception leaves the loop. The result is
  the state, the local variable \<^verbatim>\<open>offset\<close> and the exception that left, if any.
\<close>

definition process_update ::
  "host \<Rightarrow> backend \<Rightarrow> telegram_update \<Rightarrow> backend \<times> int \<times> exn option" where
  "process_update env st u =
     (let offset = update_id u + 1;
          st1 = emit [StoreSet offset_key offset,
                      Log DEBUG ''Processing update: %s'' [ArgUpdate u]]
                  (st\<lparr>store := (store st)(offset_key \<mapsto> offset)\<rparr>)
      in case message u of
           Absent \<Rightarrow>
             (emit [Log WARNING ''Unknown update type (no message present)'' []] st1,
              offset, None)
         | Holds m \<Rightarrow>
             (case handle_message env st1 m of
                (st2, None) \<Rightarrow> (st2, offset, None)
              | (st2, Some e) \<Rightarrow>
                  if is_Exception e
                  then (emit [Log EXCEPTION
                                ''An exception occurred while processing update'' []] st2,
                        offset, None)
                  else (st2, offset, Some e)))"

text \<open>The \<^verbatim>\<open>for\<close> loop over one batch, in the order of the batch.\<close>

fun process_batch ::
  "host \<Rightarrow> backend \<Rightarrow> int \<Rightarrow> telegram_update list \<Rightarrow> backend \<times> int \<times> exn option" where
  "process_batch env st offset [] = (st, offset, None)"
| "process_batch env st offset (u # us) =
     (case process_update env st u of
        (st', offset', None) \<Rightarrow> process_batch env st' offset' us
      | (st', offset', Some e) \<Rightarrow> (st', offset', Some e))"

text \<open>
  The \<^verbatim>\<open>while True\<close> loop. It ends only with an exception, of \<^verbatim>\<open>getUpdates\<close> or one
  that the per-update handler let through. The answers of \<^verbatim>\<open>getUpdates\<close> are
  consumed one per round; when they run out with no exception the loop is still
  polling, and the result is \<open>None\<close>.
\<close>

fun poll_loop ::
  "host \<Rightarrow> backend \<Rightarrow> int \<Rightarrow> getUpdates list \<Rightarrow> (backend \<times> exn) option" where
  "poll_loop env st offset [] = None"
| "poll_loop env st offset (answer # later) =
     (let st1 = emit [Log DEBUG ''Getting updates with offset %s'' [ArgInt offset]] st
      in case answer offset of
           Inl e \<Rightarrow> Some (st1, e)
         | Inr updates \<Rightarrow>
             (case process_batch env st1 offset updates of
                (st2, offset', Some e) \<Rightarrow> Some (st2, e)
              | (st2, offset', None) \<Rightarrow>
                  poll_loop env
                    (emit [Log DEBUG ''All updates processed, new offset is %s''
                             [ArgInt offset']] st2)
                    offset' later))"

datatype py_value = PyTrue | PyFalse | PyNone

datatype outcome = Returned py_value | Raised exn

text \<open>
  \<^verbatim>\<open>TelegramBackend.serve_once\<close>. A \<^verbatim>\<open>TelegramError\<close> while connecting is logged and
  \<^verbatim>\<open>False\<close> is returned; another exception there leaves the function. Once
  connected, the offset is read from the store (0 when the key is absent) and the loop
  runs. \<^verbatim>\<open>KeyboardInterrupt\<close> returns \<^verbatim>\<open>True\<close>; any other exception is logged and
  the function ends without a \<^verbatim>\<open>return\<close>, so with \<^verbatim>\<open>None\<close>. The \<^verbatim>\<open>finally\<close>
  clause runs in both cases.
\<close>

definition serve_once ::
  "host \<Rightarrow> backend \<Rightarrow> getUpdates list \<Rightarrow> (backend \<times> outcome) option" where
  "serve_once env st0 answers =
     (let st = emit [Log INFO ''Initializing connection'' []] st0
      in case getMe env of
           Inl (TelegramError msg) \<Rightarrow>
             Some (emit [Log ERROR ''Connection failure: %s'' [ArgStr msg]] st,
                   Returned PyFalse)
         | Inl e \<Rightarrow> Some (st, Raised e)
         | Inr me \<Rightarrow>
             (let st1 = emit [Log INFO ''Connected'' [], ResetReconnectionCount,
                              ConnectCallback]
                          (st\<lparr>bot_identifier := Some (person_of_user me)\<rparr>);
                  offset = (case store st1 offset_key of None \<Rightarrow> 0 | Some v \<Rightarrow> v)
              in case poll_loop env st1 offset answers of
                   None \<Rightarrow> None
                 | Some (st2, e) \<Rightarrow>
                     if e = KeyboardInterrupt
                     then Some (emit [Log INFO ''Interrupt received, shutting down..'' [],
                                      Log DEBUG ''Triggering disconnect callback'' [],
                                      DisconnectCallback] st2,
                                Returned PyTrue)
                     else Some (emit [Log EXCEPTION
                                        ''Error reading from Telegram updates stream:'' [],
                                      Log DEBUG ''Triggering disconnect callback'' [],
                                      DisconnectCallback] st2,
                                Returned PyNone)))"

subsection \<open>Sending\<close>

text \<open>
  \<^verbatim>\<open>TelegramBackend.send_message\<close>. The host's own \<^verbatim>\<open>send_message\<close> runs first, the
  body is converted, and the provider is called with the recipient's id. An
  \<^verbatim>\<open>Exception\<close> of that call is logged with the recipient's id and the original body
  and raised again. With no recipient set, \<^verbatim>\<open>mess.to.id\<close> raises inside the
  \<^verbatim>\<open>try\<close> and again inside the handler, before anything is logged.
\<close>

definition send_message :: "host \<Rightarrow> backend \<Rightarrow> Message \<Rightarrow> backend \<times> exn option" where
  "send_message env st mess =
     (let st1 = emit [SuperSendMessage mess] st;
          converted = md_convert env (body mess)
      in case to mess of
           None \<Rightarrow> (st1, Some AttributeError)
         | Some r \<Rightarrow>
             (let st2 = emit [SendMessage (ident_id r) converted] st1
              in case sendMessage env (ident_id r) converted of
                   None \<Rightarrow> (st2, None)
                 | Some e \<Rightarrow>
                     if is_Exception e
                     then (emit [Log EXCEPTION
                                   (''An exception occurred while trying to send the '' @
                                    ''following message to %s: %s'')
                                   [ArgInt (ident_id r), ArgStr (body mess)]] st2,
                           Some e)
                     else (st2, Some e)))"

subsection \<open>Room queries of the back-end\<close>

text \<open>\<^verbatim>\<open>TelegramBackend.query_room\<close> and \<^verbatim>\<open>TelegramBackend.rooms\<close>.\<close>

definition query_room :: "backend \<Rightarrow> string \<Rightarrow> (exn + TelegramRoom) \<times> backend" where
  "query_room self rm = (Inl (RoomsNotSupportedError_init None), self)"

definition rooms :: "backend \<Rightarrow> (exn + TelegramRoom list) \<times> backend" where
  "rooms self = (Inl (RoomsNotSupportedError_init None), self)"


subsection \<open>An auxiliary predicate on the digit loop\<close>

text \<open>
  When does \<open>scan_digits prev acc cs\<close> succeed? Only digits and underscores occur, the
  text starts with a digit unless a digit came just before, it ends with a digit, and
  no two underscores are neighbours.
\<close>

definition scan_ok :: "bool \<Rightarrow> nat list \<Rightarrow> bool" where
  "scan_ok prev cs =
     (list_all (\<lambda>c. is_digit c \<or> c = underscore) cs \<and>
      (prev \<or> (cs \<noteq> [] \<and> is_digit (hd cs))) \<and>
      (cs = [] \<or> is_digit (last cs)) \<and> \<not> adjacent_underscores cs)"

subsection \<open>Auxiliary notions for the polling loop\<close>

text \<open>
  An event is quiet when it is a log record or a call of the host's message callback:
  it neither writes the store nor signals a connect or a disconnect.
\<close>

fun quiet_event :: "event \<Rightarrow> bool" where
  "quiet_event (Log lv s a) = True"
| "quiet_event (CallbackMessage mi) = True"
| "quiet_event _ = False"

text \<open>The record that \<^verbatim>\<open>serve_once\<close> logs when handling an update raised an \<^verbatim>\<open>Exception\<close>.\<close>

definition exception_log :: event where
  "exception_log = Log EXCEPTION ''An exception occurred while processing update'' []"

text \<open>Does \<^verbatim>\<open>_handle_message\<close> raise on the message of this update?\<close>

definition handler_raises :: "host \<Rightarrow> backend \<Rightarrow> telegram_update \<Rightarrow> bool" where
  "handler_raises env st u =
     (case message u of
        Absent \<Rightarrow> False
      | Holds m \<Rightarrow> snd (handle_message env st m) \<noteq> None)"




text \<open>The state of \<^verbatim>\<open>serve_once\<close> when it enters the polling loop.\<close>

definition connected :: "backend \<Rightarrow> telegram_user \<Rightarrow> backend" where
  "connected st me =
     emit [Log INFO ''Connected'' [], ResetReconnectionCount, ConnectCallback]
       ((emit [Log INFO ''Initializing connection'' []] st)
          \<lparr>bot_identifier := Some (person_of_user me)\<rparr>)"

subsection \<open>Example inputs\<close>

text \<open>
  A host whose message callback raises on the body \<^verbatim>\<open>boom\<close> and whose provider
  refuses to send to negative ids, and a batch with the update ids 5, 6 and 9: a direct
  message on which the callback raises, a message without text, and a group message.
\<close>

definition example_user :: telegram_user where
  "example_user = \<lparr>user_id = 42, user_first_name = Some ''Ada'', user_last_name = Some ''King'',
                    user_username = Some ''ada''\<rparr>"

definition example_bot :: telegram_user where
  "example_bot = \<lparr>user_id = 99, user_first_name = Some ''Err'', user_last_name = None,
                   user_username = Some ''errbot''\<rparr>"

definition example_host :: host where
  "example_host =
     \<lparr>getMe = Inr example_bot,
      build_message = (\<lambda>t. \<lparr>body = t, frm = None, to = None\<rparr>),
      callback_message = (\<lambda>m. if body m = ''boom'' then Some (OtherException ''boom'') else None),
      md_convert = (\<lambda>b. b),
      sendMessage = (\<lambda>i b. if i < 0 then Some (TelegramError ''chat not found'') else None)\<rparr>"

definition example_backend :: backend where
  "example_backend =
     \<lparr>store = Map.empty, bot_identifier = Some (person_of_user example_bot), trace = []\<rparr>"

definition example_updates :: "telegram_update list" where
  "example_updates =
     [\<lparr>update_id = 5,
       message = Holds (Some \<lparr>msg_text = Some ''boom'', chat = UserChat example_user,
                        from_user = Some example_user\<rparr>)\<rparr>,
      \<lparr>update_id = 6,
       message = Holds (Some \<lparr>msg_text = None, chat = UserChat example_user,
                        from_user = Some example_user\<rparr>)\<rparr>,
      \<lparr>update_id = 9,
       message = Holds (Some \<lparr>msg_text = Some ''hello'',
                        chat = GroupChat \<lparr>groupchat_id = - 7, groupchat_title = Some ''ops''\<rparr>,
                        from_user = Some example_user\<rparr>)\<rparr>]"

section \<open>Identities: equality and display name\<close>

text \<open>
  C9. Two identity objects are equal exactly when their ids are equal, whatever the
  classes of the two objects: the names, the username, the title and the room of an
  occupant do not enter the comparison.
\<close>

theorem identifier_eq_by_id_only:
  "TelegramIdentifier_eq a b = (ident_id a = ident_id b) \<and>
   TelegramIdentifier_eq
     (Person \<lparr>person_id = i, first_name = f, last_name = l, username = n\<rparr>)
     (Person \<lparr>person_id = j, first_name = f', last_name = l', username = n'\<rparr>) = (i = j) \<and>
   TelegramIdentifier_eq
     (Room \<lparr>room_id = i, title = t\<rparr>) (Room \<lparr>room_id = j, title = t'\<rparr>) = (i = j) \<and>
   TelegramIdentifier_eq
     (MUCOccupant \<lparr>person_id = i, first_name = f, last_name = l, username = n, room = r\<rparr>)
     (MUCOccupant \<lparr>person_id = j, first_name = f', last_name = l', username = n',
                   room = r'\<rparr>) = (i = j) \<and>
   TelegramIdentifier_eq
     (Person \<lparr>person_id = i, first_name = f, last_name = l, username = n\<rparr>)
     (Room \<lparr>room_id = j, title = t\<rparr>) = (i = j) \<and>
   TelegramIdentifier_eq
     (MUCOccupant \<lparr>person_id = i, first_name = f, last_name = l, username = n, room = r\<rparr>)
     (Person \<lparr>person_id = j, first_name = f', last_name = l', username = n'\<rparr>) = (i = j)"
  by (simp add: TelegramIdentifier_eq_def)

theorem identifier_eq_by_id_only_witness:
  "TelegramIdentifier_eq
     (Person \<lparr>person_id = 7, first_name = Some ''Ada'', last_name = None, username = None\<rparr>)
     (Person \<lparr>person_id = 7, first_name = Some ''Bob'', last_name = Some ''Ray'',
              username = Some ''bob''\<rparr>) \<and>
   \<not> TelegramIdentifier_eq
     (Room \<lparr>room_id = - 3, title = Some ''ops''\<rparr>) (Room \<lparr>room_id = - 4, title = Some ''ops''\<rparr>)"
  using identifier_eq_by_id_only
    [of "Person \<lparr>person_id = 7, first_name = Some ''Ada'', last_name = None, username = None\<rparr>"
        "Person \<lparr>person_id = 7, first_name = Some ''Bob'', last_name = Some ''Ray'',
                 username = Some ''bob''\<rparr>"
        "- 3" "Some ''ops''" None None "- 4" "Some ''ops''"]
  by simp

text \<open>
  C10. \<open>fullname\<close> returns the first name alone when there is no last name, the first
  name, a space and the last name when both are there, and raises (a \<^verbatim>\<open>TypeError\<close>)
  for a person with a last name and no first name.
\<close>

theorem fullname_cases:
  "fullname \<lparr>person_id = i, first_name = f, last_name = None, username = n\<rparr> = Inr f \<and>
   fullname \<lparr>person_id = i, first_name = Some a, last_name = Some b, username = n\<rparr>
     = Inr (Some (a @ '' '' @ b)) \<and>
   fullname \<lparr>person_id = i, first_name = None, last_name = Some b, username = n\<rparr>
     = Inl TypeError"
  by (simp add: fullname_def)

theorem fullname_cases_witness:
  "fullname \<lparr>person_id = 1, first_name = Some ''Ada'', last_name = None, username = None\<rparr>
     = Inr (Some ''Ada'') \<and>
   fullname \<lparr>person_id = 1, first_name = Some ''Ada'', last_name = Some ''King'',
             username = None\<rparr> = Inr (Some ''Ada King'') \<and>
   fullname \<lparr>person_id = 1, first_name = None, last_name = Some ''King'', username = None\<rparr>
     = Inl TypeError"
  using fullname_cases [of 1 "Some ''Ada''" None "''Ada''" "''King''"]
  by simp

section \<open>Room operations are unsupported\<close>

text \<open>
  C6. Every room operation (join, create, leave, destroy, joined, exists, topic,
  occupants, invite, and the back-end's query_room and rooms) raises
  \<^verbatim>\<open>RoomsNotSupportedError\<close> with the explanatory text, whatever its arguments, and
  leaves the room or the back-end as it was.
\<close>

theorem room_operations_unsupported:
  "TelegramRoom_join rm usr pw = (Inl (RoomsNotSupportedError rooms_not_supported_text), rm) \<and>
   TelegramRoom_create rm = (Inl (RoomsNotSupportedError rooms_not_supported_text), rm) \<and>
   TelegramRoom_leave rm reason = (Inl (RoomsNotSupportedError rooms_not_supported_text), rm) \<and>
   TelegramRoom_destroy rm = (Inl (RoomsNotSupportedError rooms_not_supported_text), rm) \<and>
   TelegramRoom_joined rm = (Inl (RoomsNotSupportedError rooms_not_supported_text), rm) \<and>
   TelegramRoom_exists rm = (Inl (RoomsNotSupportedError rooms_not_supported_text), rm) \<and>
   TelegramRoom_topic rm = (Inl (RoomsNotSupportedError rooms_not_supported_text), rm) \<and>
   TelegramRoom_occupants rm = (Inl (RoomsNotSupportedError rooms_not_supported_text), rm) \<and>
   TelegramRoom_invite rm args = (Inl (RoomsNotSupportedError rooms_not_supported_text), rm) \<and>
   query_room st name = (Inl (RoomsNotSupportedError rooms_not_supported_text), st) \<and>
   rooms st = (Inl (RoomsNotSupportedError rooms_not_supported_text), st) \<and>
   rooms_not_supported_text \<noteq> []"
  by (simp add: TelegramRoom_join_def TelegramRoom_create_def TelegramRoom_leave_def
      TelegramRoom_destroy_def TelegramRoom_joined_def TelegramRoom_exists_def
      TelegramRoom_topic_def TelegramRoom_occupants_def TelegramRoom_invite_def
      query_room_def rooms_def RoomsNotSupportedError_init_def rooms_not_supported_text_def)

theorem room_operations_unsupported_witness:
  "fst (TelegramRoom_join \<lparr>room_id = - 5, title = Some ''ops''\<rparr> (Some ''bot'') None)
     = Inl (RoomsNotSupportedError rooms_not_supported_text) \<and>
   snd (TelegramRoom_invite \<lparr>room_id = - 5, title = Some ''ops''\<rparr> [''ada''])
     = \<lparr>room_id = - 5, title = Some ''ops''\<rparr> \<and>
   fst (query_room \<lparr>store = Map.empty, bot_identifier = None, trace = []\<rparr> ''ops'')
     = Inl (RoomsNotSupportedError rooms_not_supported_text)"
  using room_operations_unsupported
    [of "\<lparr>room_id = - 5, title = Some ''ops''\<rparr>" "Some ''bot''" None None "[''ada'']"
        "\<lparr>store = Map.empty, bot_identifier = None, trace = []\<rparr>" "''ops''"]
  by simp

section \<open>Parsing identifiers\<close>

lemma not_digit_underscore: "\<not> is_digit underscore"
  by (simp add: is_digit_def unicode_decimal_def decimal_zeros_def)

lemma is_digit_ascii_one: "is_digit 49" and digit_val_ascii_one: "digit_val 49 = 1"
  by (simp_all add: is_digit_def digit_val_def unicode_decimal_def decimal_zeros_def)

lemma not_space_ascii_one: "\<not> is_space 49"
  by (simp add: is_space_def whitespace_codes_def)

lemma scan_ok_Nil: "scan_ok prev [] = prev"
  by (simp add: scan_ok_def)

lemma scan_ok_digit: "is_digit c \<Longrightarrow> scan_ok prev (c # cs) = scan_ok True cs"
  by (cases cs) (auto simp: scan_ok_def not_digit_underscore)

lemma scan_ok_underscore: "scan_ok prev (underscore # cs) = (prev \<and> scan_ok False cs)"
  by (cases cs) (auto simp: scan_ok_def not_digit_underscore)

lemma scan_ok_other: "\<not> is_digit c \<Longrightarrow> c \<noteq> underscore \<Longrightarrow> \<not> scan_ok prev (c # cs)"
  by (simp add: scan_ok_def)

text \<open>The digit loop accepts exactly the well-formed texts, and computes their value and
  the number of their digits.\<close>

lemma scan_digits_char:
  "scan_digits prev acc n cs =
     (if scan_ok prev cs
      then Some (foldl (\<lambda>a c. a * 10 + digit_val c) acc (filter (\<lambda>c. c \<noteq> underscore) cs),
                 n + length (filter is_digit cs))
      else None)"
proof (induction cs arbitrary: prev acc n)
  case Nil
  show ?case by (simp add: scan_ok_Nil)
next
  case (Cons c cs)
  show ?case
  proof (cases "is_digit c")
    case True
    then have "c \<noteq> underscore" using not_digit_underscore by auto
    with True show ?thesis by (simp add: Cons.IH scan_ok_digit)
  next
    case no_digit: False
    show ?thesis
    proof (cases "c = underscore")
      case True
      then show ?thesis using no_digit by (simp add: Cons.IH scan_ok_underscore)
    next
      case False
      then show ?thesis using no_digit by (simp add: scan_ok_other)
    qed
  qed
qed

lemma int_space_is_space: "is_int_space c \<Longrightarrow> is_space c"
  by (simp add: is_int_space_def)

text \<open>What \<open>strip\<close> returns neither starts nor ends with white space.\<close>

lemma strip_ends:
  "strip s = [] \<or> (\<not> is_space (hd (strip s)) \<and> \<not> is_space (last (strip s)))"
proof -
  define t where "t = dropWhile is_space s"
  define u where "u = rev (dropWhile is_space (rev t))"
  have su: "strip s = u" by (simp add: strip_def t_def u_def)
  have t_hd: "t = [] \<or> \<not> is_space (hd t)"
    unfolding t_def by (metis hd_dropWhile)
  have u_last: "u = [] \<or> \<not> is_space (last u)"
    unfolding u_def by (metis hd_dropWhile last_rev rev_is_Nil_conv)
  have "\<exists>w. t = u @ w"
  proof -
    have "rev t = takeWhile is_space (rev t) @ dropWhile is_space (rev t)" by simp
    then have "t = rev (dropWhile is_space (rev t)) @ rev (takeWhile is_space (rev t))"
      by (metis rev_append rev_rev_ident)
    then show ?thesis unfolding u_def by blast
  qed
  then obtain w where tw: "t = u @ w" by blast
  show ?thesis
  proof (cases "u = []")
    case True
    then show ?thesis using su by simp
  next
    case False
    then have "hd t = hd u" using tw by simp
    moreover have "t \<noteq> []" using False tw by simp
    ultimately have "\<not> is_space (hd u)" using t_hd by auto
    then show ?thesis using u_last False su by simp
  qed
qed

text \<open>A text with no white space at either end is its own \<open>strip\<close>.\<close>

lemma strip_self:
  assumes "xs \<noteq> []" and "\<not> is_space (hd xs)" and "\<not> is_space (last xs)"
  shows "strip xs = xs"
proof -
  have a: "dropWhile is_space xs = xs"
    using assms(2) by (simp add: dropWhile_eq_self_iff)
  have "hd (rev xs) = last xs" using assms(1) by (simp add: hd_rev)
  then have b: "dropWhile is_space (rev xs) = rev xs"
    using assms(3) by (simp add: dropWhile_eq_self_iff)
  show ?thesis by (simp add: strip_def a b)
qed

text \<open>So the white space that \<open>py_int\<close> skips is already gone after \<open>strip\<close>.\<close>

lemma int_strip_strip:
  "rev (dropWhile is_int_space (rev (dropWhile is_int_space (strip s)))) = strip s"
proof (cases "strip s = []")
  case True
  then show ?thesis by simp
next
  case False
  then have h: "\<not> is_int_space (hd (strip s))" and l: "\<not> is_int_space (last (strip s))"
    using strip_ends[of s] int_space_is_space by auto
  have a: "dropWhile is_int_space (strip s) = strip s"
    using h by (simp add: dropWhile_eq_self_iff)
  have "hd (rev (strip s)) = last (strip s)" using False by (simp add: hd_rev)
  then have b: "dropWhile is_int_space (rev (strip s)) = rev (strip s)"
    using l by (simp add: dropWhile_eq_self_iff)
  show ?thesis by (simp add: a b)
qed

lemma py_int_strip:
  "py_int lim (strip s) =
     (if underscored_numeric (strip s) \<and> within_digit_limit lim (strip s)
      then Some (numeric_value (strip s)) else None)"
proof (cases "strip s")
  case Nil
  then show ?thesis
    by (simp add: py_int_def underscored_numeric_def unsigned_part_def)
next
  case (Cons c cs)
  have t: "rev (dropWhile is_int_space (rev (dropWhile is_int_space (c # cs)))) = c # cs"
    using int_strip_strip[of s] Cons by simp
  show ?thesis
    unfolding Cons py_int_def t Let_def
    by (auto simp: scan_digits_char scan_ok_def underscored_numeric_def unsigned_part_def
        numeric_value_def decimal_value_def within_digit_limit_def digit_count_def)
qed

lemma all_digits_no_adjacent: "list_all is_digit b \<Longrightarrow> \<not> adjacent_underscores b"
  by (induction b rule: adjacent_underscores.induct) (auto simp: not_digit_underscore)

lemma strictly_numeric_underscored: "strictly_numeric t \<Longrightarrow> underscored_numeric t"
proof -
  assume sn: "strictly_numeric t"
  define b where "b = unsigned_part t"
  have ne: "b \<noteq> []" and dg: "list_all is_digit b"
    using sn by (simp_all add: strictly_numeric_def b_def)
  have "hd b \<in> set b" and "last b \<in> set b" using ne by simp_all
  then have "is_digit (hd b)" and "is_digit (last b)"
    using dg by (simp_all add: list_all_iff)
  moreover have "list_all (\<lambda>c. is_digit c \<or> c = underscore) b"
    using dg by (simp add: list_all_iff)
  moreover have "\<not> adjacent_underscores b" using dg by (rule all_digits_no_adjacent)
  ultimately show ?thesis
    using ne by (simp add: underscored_numeric_def b_def)
qed

text \<open>A text of \<open>n\<close> ASCII digits 1, with \<open>n\<close> positive: it is strictly numeric, it is
  its own \<open>strip\<close>, and it has \<open>n\<close> digits.\<close>

lemma ones_facts:
  assumes "0 < n"
  shows "strip (replicate n 49) = replicate n 49"
    and "strictly_numeric (replicate n 49)"
    and "digit_count (replicate n 49) = n"
proof -
  have ne: "replicate n (49::nat) \<noteq> []" using assms by simp
  have hd1: "hd (replicate n (49::nat)) = 49" using assms by (simp add: hd_replicate)
  have last1: "last (replicate n (49::nat)) = 49" using assms by (simp add: last_replicate)
  show "strip (replicate n 49) = replicate n 49"
    using strip_self[OF ne] hd1 last1 not_space_ascii_one by simp
  have u: "unsigned_part (replicate n 49) = replicate n 49"
    using ne hd1 by (cases "replicate n (49::nat)") (auto simp: unsigned_part_def)
  show "strictly_numeric (replicate n 49)"
    using ne by (simp add: strictly_numeric_def u list_all_iff is_digit_ascii_one)
  show "digit_count (replicate n 49) = n"
    by (simp add: digit_count_def u is_digit_ascii_one)
qed

text \<open>
  C3, as the code has it. \<open>build_identifier\<close> strips the white space around the text.
  It accepts what is left exactly when that is an optional sign and then decimal
  digits, in which single underscores may stand between digits, and the number of
  digits passes the interpreter's limit on integer texts; every optionally signed
  string of digits alone has that form. Every other text is rejected with a
  \<^verbatim>\<open>ValueError\<close>. An accepted text with a positive value gives a person with that id,
  one with a value of zero or below gives a room with that id.
\<close>

theorem build_identifier_underscored:
  "build_identifier lim s =
     (if underscored_numeric (strip s) \<and> within_digit_limit lim (strip s)
      then (if numeric_value (strip s) > 0
            then Inr (Person \<lparr>person_id = numeric_value (strip s), first_name = None,
                              last_name = None, username = None\<rparr>)
            else Inr (Room \<lparr>room_id = numeric_value (strip s), title = None\<rparr>))
      else Inl (ValueError ''Telegram identifiers must be numeric'')) \<and>
   (strictly_numeric (strip s) \<longrightarrow> underscored_numeric (strip s))"
  by (simp add: build_identifier_def is_numeric_def py_int_strip Let_def
      strictly_numeric_underscored)

text \<open>
  Three texts under the default limit of 4300 digits: a signed ASCII text between
  spaces, a text of Arabic-Indic digits behind an em space, and a text of 4300 digits.
\<close>

theorem build_identifier_underscored_witness:
  "strictly_numeric (strip (ascii ''  -1000 '')) \<and>
   build_identifier 4300 (ascii ''  -1000 '') = Inr (Room \<lparr>room_id = - 1000, title = None\<rparr>) \<and>
   build_identifier 4300 [8195, 1635, 1636] =
     Inr (Person \<lparr>person_id = 34, first_name = None, last_name = None, username = None\<rparr>) \<and>
   strictly_numeric (strip (replicate 4300 49)) \<and>
   (\<exists>p. build_identifier 4300 (replicate 4300 49) = Inr (Person p))"
proof -
  have a: "strictly_numeric (strip (ascii ''  -1000 '')) \<and>
      build_identifier 4300 (ascii ''  -1000 '') = Inr (Room \<lparr>room_id = - 1000, title = None\<rparr>)"
    using build_identifier_underscored [of 4300 "ascii ''  -1000 ''"]
    by (simp add: ascii_def strip_def is_space_def whitespace_codes_def underscored_numeric_def
        unsigned_part_def is_digit_def digit_val_def unicode_decimal_def decimal_zeros_def
        numeric_value_def decimal_value_def strictly_numeric_def within_digit_limit_def
        digit_count_def)
  have b: "build_identifier 4300 [8195, 1635, 1636] =
     Inr (Person \<lparr>person_id = 34, first_name = None, last_name = None, username = None\<rparr>)"
    using build_identifier_underscored [of 4300 "[8195, 1635, 1636]"]
    by (simp add: strip_def is_space_def whitespace_codes_def underscored_numeric_def
        unsigned_part_def is_digit_def digit_val_def unicode_decimal_def decimal_zeros_def
        numeric_value_def decimal_value_def within_digit_limit_def digit_count_def)
  have f: "strip (replicate 4300 49) = replicate 4300 49"
    "strictly_numeric (replicate 4300 49)" "digit_count (replicate 4300 49) = 4300"
    using ones_facts[of 4300] by simp_all
  have w: "within_digit_limit 4300 (replicate 4300 49)"
    by (simp add: within_digit_limit_def f)
  have c: "\<exists>p. build_identifier 4300 (replicate 4300 49) = Inr (Person p)"
  proof (cases "numeric_value (replicate 4300 49) > 0")
    case True
    then show ?thesis
      using build_identifier_underscored [of 4300 "replicate 4300 49"] f w
      by simp
  next
    case False
    have "\<And>acc. 0 < acc \<Longrightarrow> 0 < foldl (\<lambda>a c. a * 10 + digit_val c) acc (replicate k 49)" for k
      by (induction k) (simp_all add: digit_val_ascii_one)
    then have "0 < foldl (\<lambda>a c. a * 10 + digit_val c) (0 * 10 + digit_val 49) (replicate 4299 49)"
      by (simp add: digit_val_ascii_one)
    moreover have "replicate 4300 (49::nat) = 49 # replicate 4299 49"
      by (simp add: replicate_Suc[symmetric] del: replicate_Suc)
    moreover have "unsigned_part (49 # replicate 4299 49) = 49 # replicate 4299 49"
      by (simp add: unsigned_part_def)
    ultimately have "0 < numeric_value (replicate 4300 49)"
      by (simp add: numeric_value_def decimal_value_def)
    then show ?thesis using False by simp
  qed
  show ?thesis using a b c f by simp
qed

text \<open>
  C3 as the claim words it fails twice. The text \<^verbatim>\<open>1_0\<close> is not an optionally signed
  string of digits, and \<open>build_identifier\<close> does not reject it but returns the person
  10. The text of 4301 digits 1 is a string of digits, and under the default limit of
  4300 digits \<open>build_identifier\<close> rejects it.
\<close>

theorem build_identifier_strict_counterexample:
  "\<not> strictly_numeric (strip (ascii ''1_0'')) \<and>
   build_identifier 4300 (ascii ''1_0'') =
     Inr (Person \<lparr>person_id = 10, first_name = None, last_name = None, username = None\<rparr>) \<and>
   strictly_numeric (strip (replicate 4301 49)) \<and>
   build_identifier 4300 (replicate 4301 49) =
     Inl (ValueError ''Telegram identifiers must be numeric'')"
proof -
  have a: "\<not> strictly_numeric (strip (ascii ''1_0''))"
    by (simp add: ascii_def strip_def is_space_def whitespace_codes_def strictly_numeric_def
        unsigned_part_def is_digit_def unicode_decimal_def decimal_zeros_def)
  have b: "build_identifier 4300 (ascii ''1_0'') =
     Inr (Person \<lparr>person_id = 10, first_name = None, last_name = None, username = None\<rparr>)"
    by (simp add: ascii_def strip_def is_space_def whitespace_codes_def build_identifier_def
        is_numeric_def py_int_def is_int_space_def is_digit_def digit_val_def
        unicode_decimal_def decimal_zeros_def)
  have f: "strip (replicate 4301 49) = replicate 4301 49"
    "strictly_numeric (replicate 4301 49)" "digit_count (replicate 4301 49) = 4301"
    using ones_facts[of 4301] by simp_all
  have "\<not> within_digit_limit 4300 (strip (replicate 4301 49))"
    by (simp add: within_digit_limit_def f)
  then have "py_int 4300 (strip (replicate 4301 49)) = None"
    by (simp add: py_int_strip)
  then have c: "build_identifier 4300 (replicate 4301 49) =
     Inl (ValueError ''Telegram identifiers must be numeric'')"
    by (simp add: build_identifier_def is_numeric_def Let_def)
  show ?thesis using a b c f by simp
qed

section \<open>The polling loop\<close>

subsection \<open>Handling one message\<close>

lemma emit_Nil: "emit [] st = st"
  by (simp add: emit_def)

lemma emit_emit: "emit b (emit a st) = emit (a @ b) st"
  by (simp add: emit_def)

lemma emit_fields:
  "trace (emit evs st) = trace st @ evs"
  "store (emit evs st) = store st"
  "bot_identifier (emit evs st) = bot_identifier st"
  by (simp_all add: emit_def)

text \<open>The handler appends nothing, one callback or one warning.\<close>

lemma handle_message_emit:
  "\<exists>evs. fst (handle_message env st m) = emit evs st \<and>
     (evs = [] \<or> (\<exists>mi. evs = [CallbackMessage mi]) \<or> (\<exists>s. evs = [Log WARNING s []]))"
  unfolding handle_message_def Let_def
  by (auto split: option.splits telegram_chat.splits intro: emit_Nil[symmetric])

text \<open>An exception of the handler is an \<^verbatim>\<open>AttributeError\<close> or comes from the callback.\<close>

lemma handle_message_exn_Exception:
  assumes "\<forall>mi e. callback_message env mi = Some e \<longrightarrow> is_Exception e"
    and "snd (handle_message env st m) = Some e"
  shows "is_Exception e"
  using assms unfolding handle_message_def Let_def
  by (auto split: option.splits telegram_chat.splits)

lemma handle_message_indep:
  "bot_identifier st = bot_identifier st' \<Longrightarrow>
   snd (handle_message env st m) = snd (handle_message env st' m)"
  unfolding handle_message_def Let_def
  by (auto split: option.splits telegram_chat.splits)


lemma count_quiet:
  "fst (handle_message env st m) = st2 \<Longrightarrow>
   count_list (trace st2) exception_log = count_list (trace st) exception_log"
  using handle_message_emit[of env st m]
  by (auto simp: emit_fields exception_log_def)

subsection \<open>Processing one update\<close>

text \<open>
  Whatever the update is, the first thing appended is the write of the new offset to
  the store; what follows is quiet.
\<close>

lemma process_update_shape:
  "\<exists>evs r. process_update env st u =
      (emit (StoreSet offset_key (update_id u + 1) # evs)
         (st\<lparr>store := (store st)(offset_key \<mapsto> update_id u + 1)\<rparr>),
       update_id u + 1, r) \<and> list_all quiet_event evs"
proof (cases "message u")
  case Absent
  then have "process_update env st u =
      (emit (StoreSet offset_key (update_id u + 1) #
             [Log DEBUG ''Processing update: %s'' [ArgUpdate u],
              Log WARNING ''Unknown update type (no message present)'' []])
         (st\<lparr>store := (store st)(offset_key \<mapsto> update_id u + 1)\<rparr>),
       update_id u + 1, None)"
    by (simp add: process_update_def Let_def emit_emit)
  then show ?thesis by force
next
  case (Holds m)
  define st1 where "st1 = emit [StoreSet offset_key (update_id u + 1),
      Log DEBUG ''Processing update: %s'' [ArgUpdate u]]
      (st\<lparr>store := (store st)(offset_key \<mapsto> update_id u + 1)\<rparr>)"
  obtain evs where evs: "fst (handle_message env st1 m) = emit evs st1"
    and q: "list_all quiet_event evs"
    using handle_message_emit[of env st1 m] by auto
  obtain st2 r where h: "handle_message env st1 m = (st2, r)" by (cases "handle_message env st1 m")
  have st2: "st2 = emit evs st1" using evs h by simp
  have a: "st2 = emit (StoreSet offset_key (update_id u + 1) #
              (Log DEBUG ''Processing update: %s'' [ArgUpdate u] # evs))
          (st\<lparr>store := (store st)(offset_key \<mapsto> update_id u + 1)\<rparr>)"
    by (simp add: st2 st1_def emit_emit)
  have b: "emit [Log EXCEPTION ''An exception occurred while processing update'' []] st2 =
        emit (StoreSet offset_key (update_id u + 1) #
              (Log DEBUG ''Processing update: %s'' [ArgUpdate u] # evs @
               [Log EXCEPTION ''An exception occurred while processing update'' []]))
          (st\<lparr>store := (store st)(offset_key \<mapsto> update_id u + 1)\<rparr>)"
    by (simp add: st2 st1_def emit_emit)
  have p: "process_update env st u =
     (case r of None \<Rightarrow> (st2, update_id u + 1, None)
      | Some e \<Rightarrow> if is_Exception e
          then (emit [Log EXCEPTION ''An exception occurred while processing update'' []] st2,
                update_id u + 1, None)
          else (st2, update_id u + 1, Some e))"
    using Holds h unfolding process_update_def Let_def st1_def[symmetric] by simp
  show ?thesis
  proof (cases r)
    case None
    then have "process_update env st u = (st2, update_id u + 1, None)" using p by simp
    then show ?thesis using q unfolding a by force
  next
    case (Some e)
    show ?thesis
    proof (cases "is_Exception e")
      case True
      then have "process_update env st u =
        (emit [Log EXCEPTION ''An exception occurred while processing update'' []] st2,
                update_id u + 1, None)" using p Some by simp
      then show ?thesis using q unfolding b by force
    next
      case False
      then have "process_update env st u = (st2, update_id u + 1, Some e)" using p Some by simp
      then show ?thesis using q unfolding a by force
    qed
  qed
qed

lemma process_update_fields:
  assumes "process_update env st u = (st', off', r)"
  shows "off' = update_id u + 1" and "store st' offset_key = Some (update_id u + 1)"
    and "bot_identifier st' = bot_identifier st"
    and "count_list (trace st') DisconnectCallback = count_list (trace st) DisconnectCallback"
proof -
  obtain evs r0 where p: "process_update env st u =
      (emit (StoreSet offset_key (update_id u + 1) # evs)
         (st\<lparr>store := (store st)(offset_key \<mapsto> update_id u + 1)\<rparr>),
       update_id u + 1, r0)" and q: "list_all quiet_event evs"
    using process_update_shape[of env st u] by blast
  have st': "st' = emit (StoreSet offset_key (update_id u + 1) # evs)
         (st\<lparr>store := (store st)(offset_key \<mapsto> update_id u + 1)\<rparr>)"
    using p assms by simp
  show "off' = update_id u + 1" using p assms by simp
  show "store st' offset_key = Some (update_id u + 1)" by (simp add: st' emit_fields)
  show "bot_identifier st' = bot_identifier st" by (simp add: st' emit_fields)
  have "count_list evs DisconnectCallback = 0"
    using q by (induction evs) auto
  then show "count_list (trace st') DisconnectCallback = count_list (trace st) DisconnectCallback"
    by (simp add: st' emit_fields)
qed

lemma process_update_no_escape:
  assumes "\<forall>mi e. callback_message env mi = Some e \<longrightarrow> is_Exception e"
  shows "snd (snd (process_update env st u)) = None"
proof (cases "message u")
  case Absent
  then show ?thesis by (simp add: process_update_def Let_def)
next
  case (Holds m)
  define st1 where "st1 = emit [StoreSet offset_key (update_id u + 1),
      Log DEBUG ''Processing update: %s'' [ArgUpdate u]]
      (st\<lparr>store := (store st)(offset_key \<mapsto> update_id u + 1)\<rparr>)"
  obtain st2 r where h: "handle_message env st1 m = (st2, r)" by (cases "handle_message env st1 m")
  show ?thesis
  proof (cases r)
    case None
    then show ?thesis using Holds h
      unfolding process_update_def Let_def st1_def[symmetric] by simp
  next
    case (Some e)
    then have "is_Exception e"
      using handle_message_exn_Exception[OF assms, of st1 m e] h by simp
    then show ?thesis using \<open>message u = Holds m\<close> h Some
      unfolding process_update_def Let_def st1_def[symmetric] by simp
  qed
qed

lemma process_update_exception_log:
  assumes "process_update env st u = (st', off', None)"
  shows "count_list (trace st') exception_log =
         count_list (trace st) exception_log + (if handler_raises env st u then 1 else 0)"
proof (cases "message u")
  case Absent
  then show ?thesis using assms
    by (auto simp: process_update_def Let_def emit_fields handler_raises_def exception_log_def)
next
  case (Holds m)
  define st1 where "st1 = emit [StoreSet offset_key (update_id u + 1),
      Log DEBUG ''Processing update: %s'' [ArgUpdate u]]
      (st\<lparr>store := (store st)(offset_key \<mapsto> update_id u + 1)\<rparr>)"
  obtain st2 r where h: "handle_message env st1 m = (st2, r)" by (cases "handle_message env st1 m")
  have c1: "count_list (trace st1) exception_log = count_list (trace st) exception_log"
    by (simp add: st1_def emit_fields exception_log_def)
  have c2: "count_list (trace st2) exception_log = count_list (trace st1) exception_log"
    using count_quiet[of env st1 m st2] h by simp
  have "bot_identifier st1 = bot_identifier st" by (simp add: st1_def emit_fields)
  then have "snd (handle_message env st m) = r"
    using handle_message_indep[of st1 st env m] h by simp
  then have hr: "handler_raises env st u = (r \<noteq> None)"
    by (simp add: handler_raises_def Holds)
  show ?thesis
  proof (cases r)
    case None
    then have "st' = st2" using assms Holds h
      unfolding process_update_def Let_def st1_def[symmetric] by simp
    then show ?thesis using c1 c2 hr None by simp
  next
    case (Some e)
    then have "st' = emit [exception_log] st2" using assms \<open>message u = Holds m\<close> h
      unfolding process_update_def Let_def st1_def[symmetric] exception_log_def
      by (simp split: if_splits)
    then show ?thesis using c1 c2 hr Some by (simp add: emit_fields)
  qed
qed



lemma handler_raises_indep:
  "bot_identifier st = bot_identifier st' \<Longrightarrow> handler_raises env st u = handler_raises env st' u"
  using handle_message_indep[of st st' env]
  by (auto simp: handler_raises_def split: py_attr.splits)

subsection \<open>Processing a batch\<close>

lemma process_batch_Cons:
  "process_update env st u = (st1, off1, r1) \<Longrightarrow>
   process_batch env st off (u # us) =
     (case r1 of None \<Rightarrow> process_batch env st1 off1 us | Some e \<Rightarrow> (st1, off1, Some e))"
  by (cases r1) simp_all

lemma process_batch_no_escape:
  assumes "\<forall>mi e. callback_message env mi = Some e \<longrightarrow> is_Exception e"
  shows "snd (snd (process_batch env st off us)) = None"
proof (induction us arbitrary: st off)
  case Nil
  show ?case by simp
next
  case (Cons u us)
  obtain st1 off1 r1 where p: "process_update env st u = (st1, off1, r1)"
    by (cases "process_update env st u")
  then have "r1 = None" using process_update_no_escape[OF assms, of st u] by simp
  then show ?case using process_batch_Cons[OF p, of off us] Cons.IH by simp
qed

lemma process_batch_facts:
  assumes "process_batch env st off us = (st', off', r)"
  shows "bot_identifier st' = bot_identifier st \<and>
     count_list (trace st') DisconnectCallback = count_list (trace st) DisconnectCallback"
  using assms
proof (induction us arbitrary: st off)
  case Nil
  then show ?case by simp
next
  case (Cons u us)
  obtain st1 off1 r1 where p: "process_update env st u = (st1, off1, r1)"
    by (cases "process_update env st u")
  note f = process_update_fields[OF p]
  show ?case
  proof (cases r1)
    case None
    then have "process_batch env st1 off1 us = (st', off', r)"
      using Cons.prems process_batch_Cons[OF p, of off us] by simp
    then show ?thesis using Cons.IH f by simp
  next
    case (Some e)
    then have "st' = st1" using Cons.prems process_batch_Cons[OF p, of off us] by simp
    then show ?thesis using f by simp
  qed
qed

lemma process_batch_cursor:
  assumes "process_batch env st off us = (st', off', None)" and "us \<noteq> []"
  shows "off' = update_id (last us) + 1 \<and> store st' offset_key = Some (update_id (last us) + 1)"
  using assms
proof (induction us arbitrary: st off)
  case Nil
  then show ?case by simp
next
  case (Cons u us)
  obtain st1 off1 r1 where p: "process_update env st u = (st1, off1, r1)"
    by (cases "process_update env st u")
  note f = process_update_fields[OF p]
  have r1: "r1 = None"
    using Cons.prems(1) process_batch_Cons[OF p, of off us] by (cases r1) auto
  then have rest: "process_batch env st1 off1 us = (st', off', None)"
    using Cons.prems(1) process_batch_Cons[OF p, of off us] by simp
  show ?case
  proof (cases "us = []")
    case True
    then show ?thesis using rest f by simp
  next
    case False
    then show ?thesis using Cons.IH[OF rest] by simp
  qed
qed

lemma process_batch_exception_log:
  assumes "process_batch env st off us = (st', off', None)"
  shows "count_list (trace st') exception_log =
         count_list (trace st) exception_log + length (filter (handler_raises env st) us)"
  using assms
proof (induction us arbitrary: st off)
  case Nil
  then show ?case by simp
next
  case (Cons u us)
  obtain st1 off1 r1 where p: "process_update env st u = (st1, off1, r1)"
    by (cases "process_update env st u")
  have r1: "r1 = None"
    using Cons.prems process_batch_Cons[OF p, of off us] by (cases r1) auto
  then have rest: "process_batch env st1 off1 us = (st', off', None)"
    using Cons.prems process_batch_Cons[OF p, of off us] by simp
  have b: "bot_identifier st1 = bot_identifier st" by (rule process_update_fields(3)[OF p])
  have same: "filter (handler_raises env st1) us = filter (handler_raises env st) us"
    using handler_raises_indep[OF b] by (intro filter_cong) auto
  have "count_list (trace st1) exception_log =
        count_list (trace st) exception_log + (if handler_raises env st u then 1 else 0)"
    using process_update_exception_log[of env st u st1 off1] p r1 by simp
  then show ?case using Cons.IH[OF rest] same by simp
qed


lemma example_host_catchable:
  "\<forall>mi x. callback_message example_host mi = Some x \<longrightarrow> is_Exception x"
  by (auto simp: example_host_def split: if_splits)

lemma example_raises:
  "filter (handler_raises example_host example_backend) example_updates = [example_updates ! 0]"
  by (simp add: example_updates_def handler_raises_def handle_message_def example_host_def
      example_backend_def Let_def)




text \<open>
  C1. When the loop has gone through a non-empty batch, the local offset and the
  stored cursor are the last update's id plus one, and the trace has one more
  exception record for every update whose handling raised: such an update does not
  stop the batch. The loop goes through every batch when the host's callback raises
  nothing but instances of \<^verbatim>\<open>Exception\<close>.
\<close>

theorem batch_cursor_after_last:
  assumes "us \<noteq> []" and "process_batch env st off us = (st', off', r)"
  shows "(r = None \<longrightarrow>
            off' = update_id (last us) + 1 \<and>
            store st' offset_key = Some (update_id (last us) + 1) \<and>
            count_list (trace st') exception_log =
              count_list (trace st) exception_log + length (filter (handler_raises env st) us)) \<and>
         ((\<forall>mi x. callback_message env mi = Some x \<longrightarrow> is_Exception x) \<longrightarrow> r = None)"
proof (intro conjI impI)
  assume "r = None"
  then have b: "process_batch env st off us = (st', off', None)" using assms(2) by simp
  show "off' = update_id (last us) + 1"
    using process_batch_cursor[OF b assms(1)] by simp
  show "store st' offset_key = Some (update_id (last us) + 1)"
    using process_batch_cursor[OF b assms(1)] by simp
  show "count_list (trace st') exception_log =
          count_list (trace st) exception_log + length (filter (handler_raises env st) us)"
    by (rule process_batch_exception_log[OF b])
next
  assume "\<forall>mi x. callback_message env mi = Some x \<longrightarrow> is_Exception x"
  then show "r = None"
    using process_batch_no_escape[of env st off us] assms(2) by simp
qed

theorem batch_cursor_after_last_witness:
  "map update_id example_updates = [5, 6, 9] \<and>
   snd (process_batch example_host example_backend 0 example_updates) = (10, None) \<and>
   store (fst (process_batch example_host example_backend 0 example_updates)) offset_key
     = Some 10 \<and>
   count_list (trace (fst (process_batch example_host example_backend 0 example_updates)))
     exception_log = 1"
proof -
  define res where "res = process_batch example_host example_backend 0 example_updates"
  have ne: "example_updates \<noteq> []" by (simp add: example_updates_def)
  have p: "process_batch example_host example_backend 0 example_updates =
           (fst res, fst (snd res), snd (snd res))" by (simp add: res_def)
  note th = batch_cursor_after_last[OF ne p]
  have r: "snd (snd res) = None" using th example_host_catchable by blast
  have l: "update_id (last example_updates) + 1 = 10" by (simp add: example_updates_def)
  have t0: "count_list (trace example_backend) exception_log = 0"
    by (simp add: example_backend_def)
  have "fst (snd res) = 10" "store (fst res) offset_key = Some 10"
    "count_list (trace (fst res)) exception_log = 1"
    using th r l t0 example_raises by simp_all
  moreover have "map update_id example_updates = [5, 6, 9]" by (simp add: example_updates_def)
  ultimately show ?thesis using r unfolding res_def by (simp add: prod_eq_iff)
qed

subsection \<open>Leaving the loop\<close>

lemma poll_loop_disconnect:
  assumes "poll_loop env st off answers = Some (st', e)"
  shows "count_list (trace st') DisconnectCallback = count_list (trace st) DisconnectCallback"
  using assms
proof (induction answers arbitrary: st off)
  case Nil
  then show ?case by simp
next
  case (Cons answer later)
  define st1 where "st1 = emit [Log DEBUG ''Getting updates with offset %s'' [ArgInt off]] st"
  have c1: "count_list (trace st1) DisconnectCallback = count_list (trace st) DisconnectCallback"
    by (simp add: st1_def emit_def)
  show ?case
  proof (cases "answer off")
    case (Inl x)
    then have "st' = st1" using Cons.prems by (simp add: st1_def)
    then show ?thesis using c1 by simp
  next
    case (Inr updates)
    obtain st2 off2 r where b: "process_batch env st1 off updates = (st2, off2, r)"
      by (cases "process_batch env st1 off updates")
    have c2: "count_list (trace st2) DisconnectCallback = count_list (trace st1) DisconnectCallback"
      using process_batch_facts[OF b] by simp
    show ?thesis
    proof (cases r)
      case (Some x)
      then have "st' = st2" using Cons.prems Inr b by (simp add: st1_def)
      then show ?thesis using c1 c2 by simp
    next
      case None
      define st3 where
        "st3 = emit [Log DEBUG ''All updates processed, new offset is %s'' [ArgInt off2]] st2"
      have "poll_loop env st3 off2 later = Some (st', e)"
        using Cons.prems Inr b None by (simp add: st1_def st3_def)
      then have "count_list (trace st') DisconnectCallback =
                 count_list (trace st3) DisconnectCallback"
        by (rule Cons.IH)
      then show ?thesis using c1 c2 by (simp add: st3_def emit_def)
    qed
  qed
qed

text \<open>
  The loop is left at the first call of \<^verbatim>\<open>getUpdates\<close> that raises, with that
  exception, when the host's callback raises nothing but instances of \<^verbatim>\<open>Exception\<close>.
\<close>

lemma poll_loop_exit:
  assumes h: "\<forall>mi x. callback_message env mi = Some x \<longrightarrow> is_Exception x"
    and pre: "\<forall>g\<in>set pre. \<forall>off. \<exists>us. g off = Inr us"
    and f: "\<forall>off. f off = Inl e"
  shows "\<exists>st'. poll_loop env st off (pre @ f # post) = Some (st', e)"
  using pre
proof (induction pre arbitrary: st off)
  case Nil
  then show ?case using f by simp
next
  case (Cons g pre)
  obtain us where g: "g off = Inr us" using Cons.prems by auto
  define st1 where "st1 = emit [Log DEBUG ''Getting updates with offset %s'' [ArgInt off]] st"
  obtain st2 off2 r where b: "process_batch env st1 off us = (st2, off2, r)"
    by (cases "process_batch env st1 off us")
  have "r = None" using process_batch_no_escape[OF h, of st1 off us] b by simp
  then have "poll_loop env st off ((g # pre) @ f # post) =
        poll_loop env (emit [Log DEBUG ''All updates processed, new offset is %s''
                               [ArgInt off2]] st2) off2 (pre @ f # post)"
    using g b by (simp add: st1_def)
  moreover have "\<forall>g\<in>set pre. \<forall>off. \<exists>us. g off = Inr us" using Cons.prems by simp
  ultimately show ?case using Cons.IH by simp
qed

lemma serve_once_connected:
  assumes "getMe env = Inr me"
  shows "serve_once env st answers =
    (case poll_loop env (connected st me)
            (case store st offset_key of None \<Rightarrow> 0 | Some v \<Rightarrow> v) answers of
       None \<Rightarrow> None
     | Some (st2, e) \<Rightarrow>
         if e = KeyboardInterrupt
         then Some (emit [Log INFO ''Interrupt received, shutting down..'' [],
                          Log DEBUG ''Triggering disconnect callback'' [],
                          DisconnectCallback] st2, Returned PyTrue)
         else Some (emit [Log EXCEPTION ''Error reading from Telegram updates stream:'' [],
                          Log DEBUG ''Triggering disconnect callback'' [],
                          DisconnectCallback] st2, Returned PyNone))"
  using assms by (simp add: serve_once_def connected_def Let_def emit_def)

text \<open>
  C7. Once connected, whenever \<^verbatim>\<open>serve_once\<close> returns, it has called the disconnect
  callback exactly once, as the last thing it did, and it returns \<^verbatim>\<open>True\<close> or
  \<^verbatim>\<open>None\<close>. When the calls of \<^verbatim>\<open>getUpdates\<close> answer with batches until one of
  them raises, \<^verbatim>\<open>serve_once\<close> does return: \<^verbatim>\<open>True\<close> when that exception is
  \<^verbatim>\<open>KeyboardInterrupt\<close>, and \<^verbatim>\<open>None\<close> (no success) for every other exception.
\<close>

theorem serve_once_disconnects_once:
  assumes "getMe env = Inr me"
  shows "(\<forall>st' r. serve_once env st answers = Some (st', r) \<longrightarrow>
            count_list (trace st') DisconnectCallback =
              count_list (trace st) DisconnectCallback + 1 \<and>
            last (trace st') = DisconnectCallback \<and>
            (r = Returned PyTrue \<or> r = Returned PyNone)) \<and>
         ((\<forall>mi x. callback_message env mi = Some x \<longrightarrow> is_Exception x) \<and>
          (\<forall>g\<in>set pre. \<forall>off. \<exists>us. g off = Inr us) \<and> (\<forall>off. f off = Inl e) \<longrightarrow>
            (\<exists>st'. serve_once env st (pre @ f # post) =
               Some (st', Returned (if e = KeyboardInterrupt then PyTrue else PyNone))))"
proof (intro conjI allI impI)
  fix st' r
  assume s: "serve_once env st answers = Some (st', r)"
  define off0 where "off0 = (case store st offset_key of None \<Rightarrow> 0 | Some v \<Rightarrow> v)"
  obtain st2 x where p: "poll_loop env (connected st me) off0 answers = Some (st2, x)"
    using s serve_once_connected[OF assms, of st answers]
    by (auto simp: off0_def split: option.splits)
  have c: "count_list (trace st2) DisconnectCallback = count_list (trace st) DisconnectCallback"
    using poll_loop_disconnect[OF p] by (simp add: connected_def emit_def)
  have r: "(st', r) = (if x = KeyboardInterrupt
         then (emit [Log INFO ''Interrupt received, shutting down..'' [],
                          Log DEBUG ''Triggering disconnect callback'' [],
                          DisconnectCallback] st2, Returned PyTrue)
         else (emit [Log EXCEPTION ''Error reading from Telegram updates stream:'' [],
                          Log DEBUG ''Triggering disconnect callback'' [],
                          DisconnectCallback] st2, Returned PyNone))"
    using s p serve_once_connected[OF assms, of st answers]
    by (auto simp: off0_def split: if_splits)
  show "count_list (trace st') DisconnectCallback = count_list (trace st) DisconnectCallback + 1"
    using r c by (cases "x = KeyboardInterrupt") (simp_all add: emit_def)
  show "last (trace st') = DisconnectCallback"
    using r by (cases "x = KeyboardInterrupt") (simp_all add: emit_def)
  show "r = Returned PyTrue \<or> r = Returned PyNone"
    using r by (cases "x = KeyboardInterrupt") simp_all
next
  assume a: "(\<forall>mi x. callback_message env mi = Some x \<longrightarrow> is_Exception x) \<and>
          (\<forall>g\<in>set pre. \<forall>off. \<exists>us. g off = Inr us) \<and> (\<forall>off. f off = Inl e)"
  define off0 where "off0 = (case store st offset_key of None \<Rightarrow> 0 | Some v \<Rightarrow> v)"
  obtain st2 where p: "poll_loop env (connected st me) off0 (pre @ f # post) = Some (st2, e)"
    using poll_loop_exit[of env pre f e "connected st me" off0 post] a by blast
  show "\<exists>st'. serve_once env st (pre @ f # post) =
               Some (st', Returned (if e = KeyboardInterrupt then PyTrue else PyNone))"
    using p serve_once_connected[OF assms, of st "pre @ f # post"] by (simp add: off0_def)
qed

theorem serve_once_disconnects_once_witness:
  "getMe example_host = Inr example_bot \<and>
   (\<exists>st'. serve_once example_host example_backend
            [\<lambda>off. Inr example_updates, \<lambda>off. Inl KeyboardInterrupt, \<lambda>off. Inr []] =
              Some (st', Returned PyTrue) \<and>
          count_list (trace st') DisconnectCallback = 1) \<and>
   (\<exists>st'. serve_once example_host example_backend
            [\<lambda>off. Inr example_updates, \<lambda>off. Inl (TelegramError ''timed out'')] =
              Some (st', Returned PyNone) \<and>
          count_list (trace st') DisconnectCallback = 1)"
proof -
  have g: "getMe example_host = Inr example_bot" by (simp add: example_host_def)
  have t0: "count_list (trace example_backend) DisconnectCallback = 0"
    by (simp add: example_backend_def)
  note th = serve_once_disconnects_once[OF g]
  have a: "\<exists>st'. serve_once example_host example_backend
            ([\<lambda>off. Inr example_updates] @ (\<lambda>off. Inl KeyboardInterrupt) # [\<lambda>off. Inr []]) =
              Some (st', Returned (if KeyboardInterrupt = KeyboardInterrupt then PyTrue else PyNone))"
    using th[of example_backend "[]" "[\<lambda>off. Inr example_updates]" "\<lambda>off. Inl KeyboardInterrupt"
        KeyboardInterrupt "[\<lambda>off. Inr []]"] example_host_catchable
    by simp
  have b: "\<exists>st'. serve_once example_host example_backend
            ([\<lambda>off. Inr example_updates] @ (\<lambda>off. Inl (TelegramError ''timed out'')) # []) =
              Some (st', Returned (if TelegramError ''timed out'' = KeyboardInterrupt
                                   then PyTrue else PyNone))"
    using th[of example_backend "[]" "[\<lambda>off. Inr example_updates]"
        "\<lambda>off. Inl (TelegramError ''timed out'')" "TelegramError ''timed out''" "[]"]
      example_host_catchable
    by simp
  from a obtain st1 where s1: "serve_once example_host example_backend
            [\<lambda>off. Inr example_updates, \<lambda>off. Inl KeyboardInterrupt, \<lambda>off. Inr []] =
              Some (st1, Returned PyTrue)" by auto
  from b obtain st2 where s2: "serve_once example_host example_backend
            [\<lambda>off. Inr example_updates, \<lambda>off. Inl (TelegramError ''timed out'')] =
              Some (st2, Returned PyNone)" by auto
  have c1: "count_list (trace st1) DisconnectCallback = 1"
    using th[of example_backend
        "[\<lambda>off. Inr example_updates, \<lambda>off. Inl KeyboardInterrupt, \<lambda>off. Inr []]"] s1 t0
    by simp
  have c2: "count_list (trace st2) DisconnectCallback = 1"
    using th[of example_backend
        "[\<lambda>off. Inr example_updates, \<lambda>off. Inl (TelegramError ''timed out'')]"] s2 t0
    by simp
  show ?thesis using g s1 s2 c1 c2 by blast
qed

section \<open>Normalising messages\<close>

text \<open>
  C4, as the code has it. For a message with text and a sending user: in a direct
  chat, with the bot's identity set (as \<^verbatim>\<open>serve_once\<close> does before it polls), the
  host's callback receives the message object whose sender is the person made of the
  user's id, names and username and whose recipient is the bot's own identity; in a
  group chat it receives the message object whose sender is the occupant made of the
  user's fields and the room of the chat's id and title, and whose recipient is that
  room.
\<close>

theorem handle_message_sender_recipient:
  assumes "msg_text m = Some txt" and "from_user m = Some u"
  shows "(\<forall>c me. chat m = UserChat c \<and> bot_identifier st = Some me \<longrightarrow>
            handle_message env st (Some m) =
              (emit [CallbackMessage
                       ((build_message env txt)
                          \<lparr>frm := Some (Person \<lparr>person_id = user_id u,
                                                first_name = user_first_name u,
                                                last_name = user_last_name u,
                                                username = user_username u\<rparr>),
                           to := Some (Person me)\<rparr>)] st,
               callback_message env
                 ((build_message env txt)
                    \<lparr>frm := Some (Person \<lparr>person_id = user_id u,
                                          first_name = user_first_name u,
                                          last_name = user_last_name u,
                                          username = user_username u\<rparr>),
                     to := Some (Person me)\<rparr>))) \<and>
         (\<forall>g. chat m = GroupChat g \<longrightarrow>
            handle_message env st (Some m) =
              (emit [CallbackMessage
                       ((build_message env txt)
                          \<lparr>frm := Some (MUCOccupant
                                    \<lparr>person_id = user_id u,
                                     first_name = user_first_name u,
                                     last_name = user_last_name u,
                                     username = user_username u,
                                     room = \<lparr>room_id = groupchat_id g,
                                             title = groupchat_title g\<rparr>\<rparr>),
                           to := Some (Room \<lparr>room_id = groupchat_id g,
                                             title = groupchat_title g\<rparr>)\<rparr>)] st,
               callback_message env
                 ((build_message env txt)
                    \<lparr>frm := Some (MUCOccupant
                              \<lparr>person_id = user_id u,
                               first_name = user_first_name u,
                               last_name = user_last_name u,
                               username = user_username u,
                               room = \<lparr>room_id = groupchat_id g,
                                       title = groupchat_title g\<rparr>\<rparr>),
                     to := Some (Room \<lparr>room_id = groupchat_id g,
                                       title = groupchat_title g\<rparr>)\<rparr>)))"
  using assms by (simp add: handle_message_def Let_def person_of_user_def)

theorem handle_message_sender_recipient_witness:
  "handle_message example_host example_backend
     (Some \<lparr>msg_text = Some ''hello'', chat = UserChat example_user,
            from_user = Some example_user\<rparr>) =
     (emit [CallbackMessage
              \<lparr>body = ''hello'',
               frm = Some (Person \<lparr>person_id = 42, first_name = Some ''Ada'',
                                    last_name = Some ''King'', username = Some ''ada''\<rparr>),
               to = Some (Person \<lparr>person_id = 99, first_name = Some ''Err'',
                                   last_name = None, username = Some ''errbot''\<rparr>)\<rparr>]
        example_backend, None) \<and>
   handle_message example_host example_backend
     (Some \<lparr>msg_text = Some ''hello'',
            chat = GroupChat \<lparr>groupchat_id = - 7, groupchat_title = Some ''ops''\<rparr>,
            from_user = Some example_user\<rparr>) =
     (emit [CallbackMessage
              \<lparr>body = ''hello'',
               frm = Some (MUCOccupant
                        \<lparr>person_id = 42, first_name = Some ''Ada'',
                         last_name = Some ''King'', username = Some ''ada'',
                         room = \<lparr>room_id = - 7, title = Some ''ops''\<rparr>\<rparr>),
               to = Some (Room \<lparr>room_id = - 7, title = Some ''ops''\<rparr>)\<rparr>]
        example_backend, None)"
  using handle_message_sender_recipient
    [of "\<lparr>msg_text = Some ''hello'', chat = UserChat example_user,
          from_user = Some example_user\<rparr>" "''hello''" example_user example_backend example_host]
    handle_message_sender_recipient
    [of "\<lparr>msg_text = Some ''hello'',
          chat = GroupChat \<lparr>groupchat_id = - 7, groupchat_title = Some ''ops''\<rparr>,
          from_user = Some example_user\<rparr>" "''hello''" example_user example_backend example_host]
  by (simp add: example_host_def example_user_def example_backend_def example_bot_def
      person_of_user_def)

text \<open>
  C4 as the claim words it fails: a message with text from a direct chat that has no
  sending user (\<^verbatim>\<open>from_user\<close> is \<^verbatim>\<open>None\<close>) gives no message object. Reading
  \<^verbatim>\<open>message.from_user.id\<close> raises \<^verbatim>\<open>AttributeError\<close>, the host's callback is not
  called and the state is as before. The same holds in a group chat.
\<close>

theorem handle_message_no_sender_counterexample:
  "handle_message example_host example_backend
     (Some \<lparr>msg_text = Some ''hello'', chat = UserChat example_user, from_user = None\<rparr>) =
     (example_backend, Some AttributeError) \<and>
   handle_message example_host example_backend
     (Some \<lparr>msg_text = Some ''hello'',
            chat = GroupChat \<lparr>groupchat_id = - 7, groupchat_title = Some ''ops''\<rparr>,
            from_user = None\<rparr>) =
     (example_backend, Some AttributeError)"
  by (simp add: handle_message_def Let_def)

subsection \<open>Updates without text\<close>

text \<open>
  The two ways in which the code drops an update with one warning: a message whose
  text is \<^verbatim>\<open>None\<close> (the handler logs the warning, calls no callback and raises
  nothing), and an update with no \<^verbatim>\<open>message\<close> attribute (the loop logs its own
  warning and goes on). In both the offset is stored first.
\<close>

lemma textless_update_warned:
  "(msg_text m = None \<longrightarrow>
      handle_message env st (Some m) =
        (emit [Log WARNING ''Unhandled message type (not a text message) ignored'' []] st,
         None)) \<and>
   (message u = Holds (Some m) \<and> msg_text m = None \<longrightarrow>
      process_update env st u =
        (emit [StoreSet offset_key (update_id u + 1),
               Log DEBUG ''Processing update: %s'' [ArgUpdate u],
               Log WARNING ''Unhandled message type (not a text message) ignored'' []]
           (st\<lparr>store := (store st)(offset_key \<mapsto> update_id u + 1)\<rparr>),
         update_id u + 1, None)) \<and>
   (message u = Absent \<longrightarrow>
      process_update env st u =
        (emit [StoreSet offset_key (update_id u + 1),
               Log DEBUG ''Processing update: %s'' [ArgUpdate u],
               Log WARNING ''Unknown update type (no message present)'' []]
           (st\<lparr>store := (store st)(offset_key \<mapsto> update_id u + 1)\<rparr>),
         update_id u + 1, None))"
  by (simp add: handle_message_def process_update_def Let_def emit_def)

text \<open>
  C5 fails on the code at an update whose \<^verbatim>\<open>message\<close> attribute is there and holds
  \<^verbatim>\<open>None\<close>, an update without a usable text payload: \<^verbatim>\<open>hasattr\<close> is true, so the
  loop's own warning is skipped; \<^verbatim>\<open>_handle_message(None)\<close> raises
  \<^verbatim>\<open>AttributeError\<close> at \<^verbatim>\<open>message.text\<close>; the loop catches it and logs an exception
  record, and no warning at all.
\<close>

theorem message_none_raises_and_logs_exception:
  "handle_message example_host example_backend None = (example_backend, Some AttributeError) \<and>
   process_update example_host example_backend \<lparr>update_id = 11, message = Holds None\<rparr> =
     (emit [StoreSet offset_key 12,
            Log DEBUG ''Processing update: %s''
              [ArgUpdate \<lparr>update_id = 11, message = Holds None\<rparr>],
            Log EXCEPTION ''An exception occurred while processing update'' []]
        (example_backend\<lparr>store := (store example_backend)(offset_key \<mapsto> 12)\<rparr>),
      12, None)"
  by (simp add: handle_message_def process_update_def Let_def emit_def)

section \<open>Sending a message\<close>

text \<open>
  C8. For a message with a recipient: when the provider's \<^verbatim>\<open>sendMessage\<close> raises,
  \<^verbatim>\<open>send_message\<close> raises the same exception, and for an \<^verbatim>\<open>Exception\<close> it has
  logged, just before, the record that carries the recipient's id and the message
  body; when \<^verbatim>\<open>sendMessage\<close> returns, nothing is raised and no such record is
  logged.
\<close>

theorem send_message_failure_logged_and_reraised:
  assumes "to mess = Some rcpt"
  shows "(\<forall>e. sendMessage env (ident_id rcpt) (md_convert env (body mess)) = Some e \<longrightarrow>
            snd (send_message env st mess) = Some e \<and>
            (is_Exception e \<longrightarrow>
               trace (fst (send_message env st mess)) =
                 trace st @
                 [SuperSendMessage mess,
                  SendMessage (ident_id rcpt) (md_convert env (body mess)),
                  Log EXCEPTION
                    (''An exception occurred while trying to send the '' @
                     ''following message to %s: %s'')
                    [ArgInt (ident_id rcpt), ArgStr (body mess)]])) \<and>
         (sendMessage env (ident_id rcpt) (md_convert env (body mess)) = None \<longrightarrow>
            send_message env st mess =
              (emit [SuperSendMessage mess,
                     SendMessage (ident_id rcpt) (md_convert env (body mess))] st, None))"
  using assms by (simp add: send_message_def Let_def emit_def)

theorem send_message_failure_logged_and_reraised_witness:
  "snd (send_message example_host example_backend
     \<lparr>body = ''hi'', frm = None, to = Some (Room \<lparr>room_id = - 7, title = None\<rparr>)\<rparr>) =
     Some (TelegramError ''chat not found'') \<and>
   trace (fst (send_message example_host example_backend
     \<lparr>body = ''hi'', frm = None, to = Some (Room \<lparr>room_id = - 7, title = None\<rparr>)\<rparr>)) =
     [SuperSendMessage
        \<lparr>body = ''hi'', frm = None, to = Some (Room \<lparr>room_id = - 7, title = None\<rparr>)\<rparr>,
      SendMessage (- 7) ''hi'',
      Log EXCEPTION
        (''An exception occurred while trying to send the '' @
         ''following message to %s: %s'') [ArgInt (- 7), ArgStr ''hi'']] \<and>
   snd (send_message example_host example_backend
     \<lparr>body = ''hi'', frm = None,
      to = Some (Person \<lparr>person_id = 42, first_name = None, last_name = None,
                          username = None\<rparr>)\<rparr>) = None"
  using send_message_failure_logged_and_reraised
    [of "\<lparr>body = ''hi'', frm = None, to = Some (Room \<lparr>room_id = - 7, title = None\<rparr>)\<rparr>"
        "Room \<lparr>room_id = - 7, title = None\<rparr>" example_host example_backend]
    send_message_failure_logged_and_reraised
    [of "\<lparr>body = ''hi'', frm = None,
          to = Some (Person \<lparr>person_id = 42, first_name = None, last_name = None,
                              username = None\<rparr>)\<rparr>"
        "Person \<lparr>person_id = 42, first_name = None, last_name = None, username = None\<rparr>"
        example_host example_backend]
  by (simp add: example_host_def example_backend_def)

end
